theory Spec2Isabelle
  imports Complex_Main "HOL-Library.Multiset" "HOL-Library.Log_Nat"
begin

section \<open>The PBFT / CE-PBFT simulation of simulate\_pbft.py\<close>

text \<open>
  The script simulates two threshold-vote protocols over a list of nodes. Everything
  the Python does beyond computing a value is written out here:
  \<^item> the pseudo-random generator and the wall clock are an environment \<open>env\<close> of
    streams (the value of the \<open>k\<close>-th draw, the value of the \<open>k\<close>-th clock reading);
    every theorem below that quantifies over \<open>env\<close> holds for all draws and readings;
  \<^item> the mutable state is a \<open>world\<close>: how many draws and clock readings were
    consumed, the total time passed to \<open>time.sleep\<close>, how many times \<open>Node.vote\<close>
    was entered, and the protocol instances constructed so far, in order;
  \<^item> the Byzantine ratio is a Python \<open>float\<close>, an IEEE binary64 number, and
    \<open>int(n_nodes * byzantine_ratio)\<close> is computed as Python computes it: the integer is
    converted to a double, the product is rounded to the nearest double (ties to even),
    and \<open>int\<close> truncates the result or raises on an infinity or a NaN;
  \<^item> latencies, clock readings and the throughput are real numbers: rounding is not
    modelled for them; a Python \<open>int\<close> is an \<open>int\<close>;
  \<^item> an exception is a value of \<open>py_error\<close>.
\<close>

subsection \<open>Python floats, as far as line 63 needs them\<close>

datatype py_error = ZeroDivisionError | OverflowError | ValueError

text \<open>
  \<open>Finite m e\<close> is the number \<open>m * 2 ^ e\<close>, \<open>Infinity s\<close> is the infinity that is
  negative when \<open>s\<close> holds, \<open>NaN\<close> is not a number. The sign of a zero is not kept:
  nothing below depends on it. A double is a \<open>Finite m e\<close> with \<open>is_double\<close>, an
  infinity or a NaN.
\<close>

datatype py_float = Finite int int | Infinity bool | NaN

definition float_value :: "int \<Rightarrow> int \<Rightarrow> real" where
  "float_value m e = real_of_int m * 2 powi e"

fun is_double :: "py_float \<Rightarrow> bool" where
  "is_double (Finite m e) = (\<bar>m\<bar> < 2 ^ 53 \<and> - 1074 \<le> e \<and> e \<le> 971)"
| "is_double (Infinity s) = True"
| "is_double NaN = True"

text \<open>\<open>M / 2 ^ s\<close> rounded to the nearest integer, a tie going to the even one.\<close>

definition rne_shift :: "int \<Rightarrow> nat \<Rightarrow> int" where
  "rne_shift M s =
     (if s = 0 then M
      else let q = M div 2 ^ s; r = M mod 2 ^ s; h = 2 ^ (s - 1)
           in if r < h then q else if h < r then q + 1 else if even q then q else q + 1)"

text \<open>
  The double nearest to \<open>M * 2 ^ E\<close>: 53 significant bits, no exponent below
  \<open>-1074\<close> (the subnormal numbers), and an infinity from \<open>2 ^ 1024\<close> on.
\<close>

definition round_double :: "int \<Rightarrow> int \<Rightarrow> py_float" where
  "round_double M E =
     (if M = 0 then Finite 0 0
      else let qe = max (bitlen \<bar>M\<bar> + E - 53) (- 1074);
               (m, e) = (if qe \<le> E then (M, E) else (rne_shift M (nat (qe - E)), qe))
           in if 1024 < bitlen \<bar>m\<bar> + e then Infinity (m < 0) else Finite m e)"

text \<open>An int as the operand of a float operation: \<open>OverflowError\<close> when it is too large.\<close>

definition int_to_float :: "int \<Rightarrow> py_error + py_float" where
  "int_to_float n =
     (case round_double n 0 of Infinity s \<Rightarrow> Inl OverflowError | x \<Rightarrow> Inr x)"

fun float_mul :: "py_float \<Rightarrow> py_float \<Rightarrow> py_float" where
  "float_mul (Finite m1 e1) (Finite m2 e2) = round_double (m1 * m2) (e1 + e2)"
| "float_mul (Finite m e) (Infinity s) = (if m = 0 then NaN else Infinity (s \<noteq> (m < 0)))"
| "float_mul (Infinity s) (Finite m e) = (if m = 0 then NaN else Infinity (s \<noteq> (m < 0)))"
| "float_mul (Infinity s1) (Infinity s2) = Infinity (s1 \<noteq> s2)"
| "float_mul NaN y = NaN"
| "float_mul x NaN = NaN"

text \<open>
  \<open>int(x)\<close> of a float truncates towards zero; it raises \<open>OverflowError\<close> on an
  infinity and \<open>ValueError\<close> on a NaN.
\<close>

fun float_to_int :: "py_float \<Rightarrow> py_error + int" where
  "float_to_int (Finite m e) =
     Inr (if 0 \<le> e then m * 2 ^ nat e
          else if 0 \<le> m then m div 2 ^ nat (- e)
          else - ((- m) div 2 ^ nat (- e)))"
| "float_to_int (Infinity s) = Inl OverflowError"
| "float_to_int NaN = Inl ValueError"

text \<open>\<open>sum(votes)\<close> of a list of booleans counts \<open>True\<close> as 1 and \<open>False\<close> as 0.\<close>

fun py_sum :: "bool list \<Rightarrow> int" where
  "py_sum [] = 0"
| "py_sum (v # vs) = (if v then 1 else 0) + py_sum vs"

text \<open>\<open>a / b\<close> on two ints: \<open>ZeroDivisionError\<close> when \<open>b\<close> is zero.\<close>

definition py_truediv :: "int \<Rightarrow> int \<Rightarrow> py_error + real" where
  "py_truediv a b = (if b = 0 then Inl ZeroDivisionError else Inr (real_of_int a / real_of_int b))"

subsection \<open>The objects: nodes and protocol instances\<close>

datatype Node = Node (is_byzantine: bool)

type_synonym transaction = unit

record PBFTProtocol =
  pbft_nodes :: "Node list"

definition PBFTProtocol_init :: "Node list \<Rightarrow> PBFTProtocol" where
  "PBFTProtocol_init nodes = \<lparr>pbft_nodes = nodes\<rparr>"

record CEPBFTProtocol =
  cepbft_nodes :: "Node list"
  trusted_nodes :: "Node list"

definition classify_nodes :: "Node list \<Rightarrow> Node list" where
  "classify_nodes nodes = filter (\<lambda>node. \<not> is_byzantine node) nodes"

definition CEPBFTProtocol_init :: "Node list \<Rightarrow> CEPBFTProtocol" where
  "CEPBFTProtocol_init nodes = \<lparr>cepbft_nodes = nodes, trusted_nodes = classify_nodes nodes\<rparr>"

text \<open>
  \<open>simulate\<close> takes the protocol class as an argument and calls its constructor and
  its \<open>consensus\<close> method: the two classes the script passes are the two
  constructors of \<open>protocol_class\<close>, an instance is a \<open>protocol\<close>.
\<close>

datatype protocol_class = PBFTProtocol_class | CEPBFTProtocol_class

datatype protocol = PBFT PBFTProtocol | CEPBFT CEPBFTProtocol

fun construct :: "protocol_class \<Rightarrow> Node list \<Rightarrow> protocol" where
  "construct PBFTProtocol_class nodes = PBFT (PBFTProtocol_init nodes)"
| "construct CEPBFTProtocol_class nodes = CEPBFT (CEPBFTProtocol_init nodes)"

subsection \<open>Randomness, clock and sleep\<close>

record env =
  randbelow_draw :: "nat \<Rightarrow> nat"
  random_draw :: "nat \<Rightarrow> real"
  time_draw :: "nat \<Rightarrow> real"

record world =
  draws :: nat
  reads :: nat
  slept :: real
  polled :: nat
  constructed :: "protocol list"

text \<open>\<open>random.random()\<close>: the next draw, a float of the half-open unit interval.\<close>

definition random_random :: "env \<Rightarrow> world \<Rightarrow> real \<times> world" where
  "random_random e w = (random_draw e (draws w), w\<lparr>draws := Suc (draws w)\<rparr>)"

text \<open>\<open>random.uniform(a, b)\<close> is \<open>a + (b - a) * random()\<close>.\<close>

definition random_uniform :: "env \<Rightarrow> real \<Rightarrow> real \<Rightarrow> world \<Rightarrow> real \<times> world" where
  "random_uniform e a b w = (let (u, w1) = random_random e w in (a + (b - a) * u, w1))"

text \<open>\<open>_randbelow(k)\<close>: the next draw, an integer below \<open>k\<close>.\<close>

definition randbelow :: "env \<Rightarrow> nat \<Rightarrow> world \<Rightarrow> nat \<times> world" where
  "randbelow e k w = (randbelow_draw e (draws w) mod k, w\<lparr>draws := Suc (draws w)\<rparr>)"

text \<open>
  \<open>random.choice([x, y])\<close> is \<open>[x, y][_randbelow(2)]\<close>; the script calls
  \<open>random.choice\<close> on the two-element list \<open>[True, False]\<close> only.
\<close>

definition random_choice2 :: "env \<Rightarrow> 'a \<Rightarrow> 'a \<Rightarrow> world \<Rightarrow> 'a \<times> world" where
  "random_choice2 e x y w = (let (j, w1) = randbelow e 2 w in (if j = 0 then x else y, w1))"

text \<open>
  \<open>random.shuffle(x)\<close>: for \<open>i\<close> from \<open>len(x) - 1\<close> down to \<open>1\<close>, draw
  \<open>j = _randbelow(i + 1)\<close> and exchange \<open>x[i]\<close> and \<open>x[j]\<close>.
\<close>

fun shuffle_loop :: "env \<Rightarrow> nat \<Rightarrow> 'a list \<Rightarrow> world \<Rightarrow> 'a list \<times> world" where
  "shuffle_loop e 0 x w = (x, w)"
| "shuffle_loop e (Suc i) x w =
     (let (j, w1) = randbelow e (Suc i + 1) w
      in shuffle_loop e i (x[Suc i := x ! j, j := x ! Suc i]) w1)"

definition random_shuffle :: "env \<Rightarrow> 'a list \<Rightarrow> world \<Rightarrow> 'a list \<times> world" where
  "random_shuffle e x w = shuffle_loop e (length x - 1) x w"

definition time_sleep :: "real \<Rightarrow> world \<Rightarrow> world" where
  "time_sleep secs w = w\<lparr>slept := slept w + secs\<rparr>"

definition time_time :: "env \<Rightarrow> world \<Rightarrow> real \<times> world" where
  "time_time e w = (time_draw e (reads w), w\<lparr>reads := Suc (reads w)\<rparr>)"

subsection \<open>class Node\<close>

definition simulate_latency :: "env \<Rightarrow> Node \<Rightarrow> world \<Rightarrow> real \<times> world" where
  "simulate_latency e self w =
     (if is_byzantine self then random_uniform e (5 / 100) (2 / 10) w
      else random_uniform e (1 / 100) (5 / 100) w)"

definition vote :: "env \<Rightarrow> Node \<Rightarrow> transaction \<Rightarrow> world \<Rightarrow> bool \<times> world" where
  "vote e self tx w =
     (let (latency, w1) = simulate_latency e self (w\<lparr>polled := Suc (polled w)\<rparr>);
          w2 = time_sleep latency w1
      in if is_byzantine self then random_choice2 e True False w2 else (True, w2))"

text \<open>The comprehension \<open>[node.vote(transaction) for node in nodes]\<close>.\<close>

fun collect_votes :: "env \<Rightarrow> Node list \<Rightarrow> transaction \<Rightarrow> world \<Rightarrow> bool list \<times> world" where
  "collect_votes e [] tx w = ([], w)"
| "collect_votes e (node # rest) tx w =
     (let (v, w1) = vote e node tx w;
          (vs, w2) = collect_votes e rest tx w1
      in (v # vs, w2))"

subsection \<open>The consensus methods of PBFTProtocol and CEPBFTProtocol\<close>

definition pbft_consensus :: "env \<Rightarrow> PBFTProtocol \<Rightarrow> transaction \<Rightarrow> world \<Rightarrow> bool \<times> world" where
  "pbft_consensus e self tx w =
     (let (votes, w1) = collect_votes e (pbft_nodes self) tx w;
          approved_votes = py_sum votes
      in if (2 / 3) * real (length (pbft_nodes self)) \<le> real_of_int approved_votes
         then (True, w1) else (False, w1))"

definition cepbft_consensus :: "env \<Rightarrow> CEPBFTProtocol \<Rightarrow> transaction \<Rightarrow> world \<Rightarrow> bool \<times> world" where
  "cepbft_consensus e self tx w =
     (if length (trusted_nodes self) = 0 then (False, w)
      else
        (let (votes, w1) = collect_votes e (trusted_nodes self) tx w;
             approved_votes = py_sum votes
         in if (2 / 3) * real (length (trusted_nodes self)) \<le> real_of_int approved_votes
            then (True, w1) else (False, w1)))"

fun consensus :: "env \<Rightarrow> protocol \<Rightarrow> transaction \<Rightarrow> world \<Rightarrow> bool \<times> world" where
  "consensus e (PBFT p) tx w = pbft_consensus e p tx w"
| "consensus e (CEPBFT p) tx w = cepbft_consensus e p tx w"

subsection \<open>simulate\<close>

text \<open>
  Line 63, \<open>n_byzantine = int(n_nodes * byzantine_ratio)\<close>: the int becomes a double,
  the product is a double, and \<open>int\<close> truncates it.
\<close>

definition n_byzantine :: "int \<Rightarrow> py_float \<Rightarrow> py_error + int" where
  "n_byzantine n_nodes byzantine_ratio =
     (case int_to_float n_nodes of
        Inl err \<Rightarrow> Inl err
      | Inr x \<Rightarrow> float_to_int (float_mul x byzantine_ratio))"

text \<open>
  Lines 62 to 67: that many Byzantine nodes followed by \<open>n_nodes - n_byzantine\<close>
  honest ones; \<open>range\<close> of a negative number is empty, which is what \<open>nat\<close> of a
  negative integer gives.
\<close>

definition build_nodes :: "int \<Rightarrow> py_float \<Rightarrow> py_error + Node list" where
  "build_nodes n_nodes byzantine_ratio =
     (case n_byzantine n_nodes byzantine_ratio of
        Inl err \<Rightarrow> Inl err
      | Inr k \<Rightarrow>
          Inr (replicate (nat k) (Node True) @ replicate (nat (n_nodes - k)) (Node False)))"

text \<open>Lines 62 to 68: the node list, shuffled in place.\<close>

definition build_population ::
  "env \<Rightarrow> int \<Rightarrow> py_float \<Rightarrow> world \<Rightarrow> py_error + (Node list \<times> world)" where
  "build_population e n_nodes byzantine_ratio w =
     (case build_nodes n_nodes byzantine_ratio of
        Inl err \<Rightarrow> Inl err
      | Inr nodes \<Rightarrow> Inr (random_shuffle e nodes w))"

text \<open>Lines 75 to 78: the loop over \<open>range(n_transactions)\<close>, counting approvals.\<close>

fun run_rounds :: "env \<Rightarrow> protocol \<Rightarrow> nat \<Rightarrow> int \<Rightarrow> world \<Rightarrow> int \<times> world" where
  "run_rounds e p 0 correct_transactions w = (correct_transactions, w)"
| "run_rounds e p (Suc k) correct_transactions w =
     (let (ok, w1) = consensus e p () w
      in run_rounds e p k (if ok then correct_transactions + 1 else correct_transactions) w1)"

text \<open>
  Line 70 constructs the protocol instance, which the world records. In
  \<open>correct_transactions / elapsed_time\<close> an int is divided by a float: Python raises
  \<open>ZeroDivisionError\<close> when the float is zero and divides otherwise.
\<close>

definition simulate ::
  "env \<Rightarrow> protocol_class \<Rightarrow> int \<Rightarrow> py_float \<Rightarrow> int \<Rightarrow> world
     \<Rightarrow> py_error + ((real \<times> int \<times> int) \<times> world)" where
  "simulate e protocol_cls n_nodes byzantine_ratio n_transactions w =
     (case build_population e n_nodes byzantine_ratio w of
        Inl err \<Rightarrow> Inl err
      | Inr (nodes, w1) \<Rightarrow>
          (let p = construct protocol_cls nodes;
               (start_time, w2) = time_time e (w1\<lparr>constructed := constructed w1 @ [p]\<rparr>);
               (correct_transactions, w3) = run_rounds e p (nat n_transactions) 0 w2;
               (end_time, w4) = time_time e w3;
               elapsed_time = end_time - start_time
           in if elapsed_time = 0 then Inl ZeroDivisionError
              else Inr ((real_of_int correct_transactions / elapsed_time,
                         correct_transactions, n_transactions), w4)))"

subsection \<open>The script: parameters and the sweep over the Byzantine ratios\<close>

definition n_nodes :: int where
  "n_nodes = 20"

definition n_transactions :: int where
  "n_transactions = 100"

text \<open>
  The literals \<open>0.0\<close>, \<open>0.1\<close>, \<open>0.2\<close>, \<open>0.3\<close>, \<open>0.4\<close> are the doubles nearest to these
  decimals (\<open>0x1.999999999999ap-4\<close>, \<open>0x1.999999999999ap-3\<close>, \<open>0x1.3333333333333p-2\<close>,
  \<open>0x1.999999999999ap-2\<close>), written as an odd integer times a power of two.
\<close>

definition byzantine_ratios :: "py_float list" where
  "byzantine_ratios =
     [Finite 0 0,
      Finite 3602879701896397 (- 55),
      Finite 3602879701896397 (- 54),
      Finite 5404319552844595 (- 54),
      Finite 3602879701896397 (- 53)]"

record series =
  pbft_throughputs :: "real list"
  cepbft_throughputs :: "real list"
  pbft_correct_ratios :: "real list"
  cepbft_correct_ratios :: "real list"

text \<open>
  Lines 96 to 104: for each ratio, \<open>simulate\<close> is called for \<open>PBFTProtocol\<close> and then,
  in the world the first call left, for \<open>CEPBFTProtocol\<close>; the four result lists grow
  by one element each. An exception ends the script.
\<close>

fun sweep :: "env \<Rightarrow> py_float list \<Rightarrow> series \<Rightarrow> world \<Rightarrow> py_error + (series \<times> world)" where
  "sweep e [] s w = Inr (s, w)"
| "sweep e (ratio # ratios) s w =
     (case simulate e PBFTProtocol_class n_nodes ratio n_transactions w of
        Inl err \<Rightarrow> Inl err
      | Inr ((pbft_tp, pbft_correct, pbft_total), w1) \<Rightarrow>
     (case simulate e CEPBFTProtocol_class n_nodes ratio n_transactions w1 of
        Inl err \<Rightarrow> Inl err
      | Inr ((cepbft_tp, cepbft_correct, cepbft_total), w2) \<Rightarrow>
     (case py_truediv pbft_correct pbft_total of
        Inl err \<Rightarrow> Inl err
      | Inr pbft_ratio \<Rightarrow>
     (case py_truediv cepbft_correct cepbft_total of
        Inl err \<Rightarrow> Inl err
      | Inr cepbft_ratio \<Rightarrow>
          sweep e ratios
            \<lparr>pbft_throughputs = pbft_throughputs s @ [pbft_tp],
             cepbft_throughputs = cepbft_throughputs s @ [cepbft_tp],
             pbft_correct_ratios = pbft_correct_ratios s @ [pbft_ratio],
             cepbft_correct_ratios = cepbft_correct_ratios s @ [cepbft_ratio]\<rparr> w2))))"

definition script :: "env \<Rightarrow> world \<Rightarrow> py_error + (series \<times> world)" where
  "script e w =
     sweep e byzantine_ratios
       \<lparr>pbft_throughputs = [], cepbft_throughputs = [],
        pbft_correct_ratios = [], cepbft_correct_ratios = []\<rparr> w"

subsection \<open>Concrete environments, for the worked examples\<close>

text \<open>
  \<open>env_ticking\<close>: the first integer draw is 0 and all later ones are 1, every float
  draw is one half, and the clock advances by 100 seconds per reading.
  \<open>env_frozen\<close> is the same with a clock that returns the same value at every
  reading; \<open>env_backwards\<close> has a clock that was set back between two readings.
  \<open>world0\<close> is the state in which nothing has been drawn, read or constructed yet.
\<close>

definition env_ticking :: env where
  "env_ticking =
     \<lparr>randbelow_draw = (\<lambda>k. if k = 0 then 0 else 1),
      random_draw = (\<lambda>k. 1 / 2),
      time_draw = (\<lambda>k. 100 * real k)\<rparr>"

definition env_frozen :: env where
  "env_frozen = env_ticking\<lparr>time_draw := (\<lambda>k. 0)\<rparr>"

definition env_backwards :: env where
  "env_backwards = env_ticking\<lparr>time_draw := (\<lambda>k. - real k)\<rparr>"

definition world0 :: world where
  "world0 = \<lparr>draws = 0, reads = 0, slept = 0, polled = 0, constructed = []\<rparr>"


section \<open>Properties\<close>

subsection \<open>The rounded product of line 63\<close>








subsection \<open>The shuffle permutes its list\<close>

lemma mset_shuffle_loop:
  "i \<le> length x - 1 \<Longrightarrow> mset (fst (shuffle_loop e i x w)) = mset x"
proof (induction i arbitrary: x w)
  case 0
  then show ?case by simp
next
  case (Suc i)
  let ?j = "randbelow_draw e (draws w) mod (Suc i + 1)"
  have i: "Suc i < length x" using Suc.prems by simp
  have j: "?j < length x" using i by (simp add: less_le_trans [OF mod_less_divisor])
  have sw: "mset (x[Suc i := x ! ?j, ?j := x ! Suc i]) = mset x"
    using mset_swap [OF j i] .
  have "i \<le> length (x[Suc i := x ! ?j, ?j := x ! Suc i]) - 1" using i by simp
  from Suc.IH [OF this] sw show ?case
    by (simp add: randbelow_def)
qed

lemma mset_random_shuffle: "mset (fst (random_shuffle e x w)) = mset x"
  by (simp add: random_shuffle_def mset_shuffle_loop)

lemma length_filter_mset_cong:
  "mset xs = mset ys \<Longrightarrow> length (filter P xs) = length (filter P ys)"
proof -
  assume "mset xs = mset ys"
  then have "size (filter_mset P (mset xs)) = size (filter_mset P (mset ys))" by simp
  then show ?thesis by (simp only: mset_filter [symmetric] size_mset)
qed

lemma shuffle_loop_world:
  "snd (shuffle_loop e i x w) = w\<lparr>draws := draws w + i\<rparr>"
  by (induction i arbitrary: x w) (simp_all add: randbelow_def)

subsection \<open>The population\<close>

lemma build_population_Inl:
  "n_byzantine n r = Inl err \<Longrightarrow> build_population e n r w = Inl err"
  by (simp add: build_population_def build_nodes_def)

lemma build_population_Inr:
  "n_byzantine n r = Inr k \<Longrightarrow>
     build_population e n r w
       = Inr (random_shuffle e
                (replicate (nat k) (Node True) @ replicate (nat (n - k)) (Node False)) w)"
  by (simp add: build_population_def build_nodes_def)

lemma build_population_built:
  assumes "build_population e n r w = Inr (pop, w1)"
  shows "\<exists>k. n_byzantine n r = Inr k
             \<and> mset pop = replicate_mset (nat k) (Node True)
                           + replicate_mset (nat (n - k)) (Node False)
             \<and> w1 = w\<lparr>draws := draws w + (nat k + nat (n - k) - 1)\<rparr>"
proof (cases "n_byzantine n r")
  case (Inl err)
  then show ?thesis using assms by (simp add: build_population_Inl)
next
  case (Inr k)
  let ?nodes = "replicate (nat k) (Node True) @ replicate (nat (n - k)) (Node False)"
  have sh: "random_shuffle e ?nodes w = (pop, w1)"
    using assms by (simp add: build_population_Inr [OF Inr])
  have "mset (fst (random_shuffle e ?nodes w)) = mset ?nodes"
    by (rule mset_random_shuffle)
  then have m: "mset pop = mset ?nodes" by (simp add: sh)
  have "snd (random_shuffle e ?nodes w) = w\<lparr>draws := draws w + (length ?nodes - 1)\<rparr>"
    by (simp add: random_shuffle_def shuffle_loop_world)
  then have "w1 = w\<lparr>draws := draws w + (nat k + nat (n - k) - 1)\<rparr>" by (simp add: sh)
  with Inr m show ?thesis by simp
qed

lemma counts_of_mset:
  assumes "mset pop = replicate_mset a (Node True) + replicate_mset b (Node False)"
  shows "length (filter is_byzantine pop) = a"
    and "length (filter (\<lambda>x. \<not> is_byzantine x) pop) = b"
    and "length pop = a + b"
proof -
  have m: "mset pop = mset (replicate a (Node True) @ replicate b (Node False))"
    using assms by simp
  show "length (filter is_byzantine pop) = a"
    using length_filter_mset_cong [OF m, of is_byzantine] by simp
  show "length (filter (\<lambda>x. \<not> is_byzantine x) pop) = b"
    using length_filter_mset_cong [OF m, of "\<lambda>x. \<not> is_byzantine x"] by simp
  show "length pop = a + b"
    using m by (metis length_append length_replicate size_mset)
qed

subsection \<open>Votes\<close>

lemma py_sum_count: "py_sum vs = int (length (filter (\<lambda>v. v) vs))"
  by (induction vs) simp_all

lemma vote_honest: "\<not> is_byzantine node \<Longrightarrow> fst (vote e node tx w) = True"
  by (simp add: vote_def Let_def case_prod_unfold)

lemma vote_world:
  "polled (snd (vote e node tx w)) = Suc (polled w)"
  "reads (snd (vote e node tx w)) = reads w"
  "draws (snd (vote e node tx w)) = draws w + (if is_byzantine node then 2 else 1)"
  "constructed (snd (vote e node tx w)) = constructed w"
  by (simp_all add: vote_def simulate_latency_def random_uniform_def random_random_def
        random_choice2_def randbelow_def time_sleep_def Let_def case_prod_unfold)

lemma collect_votes_Cons:
  "fst (collect_votes e (node # rest) tx w)
     = fst (vote e node tx w) # fst (collect_votes e rest tx (snd (vote e node tx w)))"
  "snd (collect_votes e (node # rest) tx w)
     = snd (collect_votes e rest tx (snd (vote e node tx w)))"
  by (simp_all add: Let_def case_prod_unfold)

lemma length_collect_votes: "length (fst (collect_votes e ns tx w)) = length ns"
  by (induction ns arbitrary: w) (simp_all add: collect_votes_Cons del: collect_votes.simps(2))

lemma collect_votes_honest:
  "int (length (filter (\<lambda>x. \<not> is_byzantine x) ns)) \<le> py_sum (fst (collect_votes e ns tx w))"
proof (induction ns arbitrary: w)
  case Nil
  then show ?case by simp
next
  case (Cons node rest)
  have ih: "int (length (filter (\<lambda>x. \<not> is_byzantine x) rest))
              \<le> py_sum (fst (collect_votes e rest tx (snd (vote e node tx w))))"
    by (rule Cons.IH)
  have "0 \<le> py_sum (fst (collect_votes e rest tx (snd (vote e node tx w))))"
    by (simp add: py_sum_count)
  with ih show ?case
    by (cases "is_byzantine node")
       (simp_all add: collect_votes_Cons vote_honest del: collect_votes.simps(2))
qed

lemma collect_votes_all_honest:
  assumes "\<forall>x\<in>set ns. \<not> is_byzantine x"
  shows "py_sum (fst (collect_votes e ns tx w)) = int (length ns)"
proof -
  have "filter (\<lambda>x. \<not> is_byzantine x) ns = ns" using assms by simp
  then have lo: "int (length ns) \<le> py_sum (fst (collect_votes e ns tx w))"
    using collect_votes_honest [of ns e tx w] by simp
  have "py_sum (fst (collect_votes e ns tx w)) \<le> int (length (fst (collect_votes e ns tx w)))"
    unfolding py_sum_count by simp
  then show ?thesis using lo by (simp add: length_collect_votes)
qed

lemma collect_votes_world:
  "polled (snd (collect_votes e ns tx w)) = polled w + length ns"
  "reads (snd (collect_votes e ns tx w)) = reads w"
  "draws (snd (collect_votes e ns tx w)) = draws w + length ns + length (filter is_byzantine ns)"
  "constructed (snd (collect_votes e ns tx w)) = constructed w"
  by (induction ns arbitrary: w)
     (simp_all add: collect_votes_Cons vote_world del: collect_votes.simps(2))

subsection \<open>The two consensus methods\<close>

lemma pbft_consensus_sel:
  "fst (pbft_consensus e p tx w)
     = ((2 / 3) * real (length (pbft_nodes p))
          \<le> real_of_int (py_sum (fst (collect_votes e (pbft_nodes p) tx w))))"
  "snd (pbft_consensus e p tx w) = snd (collect_votes e (pbft_nodes p) tx w)"
  by (simp_all add: pbft_consensus_def Let_def case_prod_unfold)

lemma cepbft_consensus_sel:
  "fst (cepbft_consensus e p tx w)
     = (trusted_nodes p \<noteq> [] \<and>
        (2 / 3) * real (length (trusted_nodes p))
          \<le> real_of_int (py_sum (fst (collect_votes e (trusted_nodes p) tx w))))"
  "snd (cepbft_consensus e p tx w)
     = (if trusted_nodes p = [] then w else snd (collect_votes e (trusted_nodes p) tx w))"
  by (simp_all add: cepbft_consensus_def Let_def case_prod_unfold)

lemma run_rounds_Suc:
  "run_rounds e p (Suc k) c w
     = run_rounds e p k (if fst (consensus e p () w) then c + 1 else c) (snd (consensus e p () w))"
  by (simp add: case_prod_unfold)

lemma run_rounds_always:
  "(\<And>w. fst (consensus e p () w)) \<Longrightarrow> fst (run_rounds e p k c w) = c + int k"
  by (induction k arbitrary: c w) (simp_all add: run_rounds_Suc del: run_rounds.simps(2))

lemma run_rounds_idle:
  "(\<And>w. consensus e p () w = (False, w)) \<Longrightarrow> run_rounds e p k c w = (c, w)"
  by (induction k arbitrary: c w) simp_all

subsection \<open>What a run does to the world\<close>

lemma consensus_world:
  "reads (snd (consensus e p tx w)) = reads w"
  "constructed (snd (consensus e p tx w)) = constructed w"
  by (cases p; simp add: pbft_consensus_sel cepbft_consensus_sel collect_votes_world)+

lemma run_rounds_world:
  "reads (snd (run_rounds e p k c w)) = reads w"
  "constructed (snd (run_rounds e p k c w)) = constructed w"
  by (induction k arbitrary: c w)
     (simp_all add: run_rounds_Suc consensus_world del: run_rounds.simps(2))

lemma run_rounds_bounds:
  "c \<le> fst (run_rounds e p k c w) \<and> fst (run_rounds e p k c w) \<le> c + int k"
proof (induction k arbitrary: c w)
  case 0
  then show ?case by simp
next
  case (Suc k)
  show ?case
    using Suc.IH [of "c + 1" "snd (consensus e p () w)"] Suc.IH [of c "snd (consensus e p () w)"]
    by (simp add: run_rounds_Suc del: run_rounds.simps(2))
qed

text \<open>
  When line 63 raises, \<open>simulate\<close> raises. Otherwise it reads the clock twice, and
  nothing in between reads it: the elapsed time is the difference of two consecutive
  readings.
\<close>

lemma simulate_Inl:
  "build_population e n r w = Inl err \<Longrightarrow> simulate e cls n r t w = Inl err"
  by (simp add: simulate_def)

lemma simulate_unfold:
  assumes "build_population e n r w = Inr (pop, w1)"
  shows "simulate e cls n r t w =
     (if time_draw e (Suc (reads w)) - time_draw e (reads w) = 0 then Inl ZeroDivisionError
      else Inr ((real_of_int (fst (run_rounds e (construct cls pop) (nat t) 0
                   (snd (time_time e (w1\<lparr>constructed := constructed w1 @ [construct cls pop]\<rparr>)))))
                   / (time_draw e (Suc (reads w)) - time_draw e (reads w)),
                 fst (run_rounds e (construct cls pop) (nat t) 0
                   (snd (time_time e (w1\<lparr>constructed := constructed w1 @ [construct cls pop]\<rparr>)))),
                 t),
                snd (time_time e (snd (run_rounds e (construct cls pop) (nat t) 0
                   (snd (time_time e (w1\<lparr>constructed := constructed w1 @ [construct cls pop]\<rparr>))))))))"
proof -
  from build_population_built [OF assms] have "reads w1 = reads w" by auto
  then show ?thesis
    by (simp add: simulate_def assms Let_def case_prod_unfold time_time_def run_rounds_world)
qed

text \<open>A call of \<open>simulate\<close> that returns has constructed one instance, over its own population.\<close>

lemma simulate_constructed:
  assumes "simulate e cls n r t w = Inr (res, w')"
  shows "\<exists>pop w1. build_population e n r w = Inr (pop, w1)
                 \<and> constructed w' = constructed w @ [construct cls pop]"
proof (cases "build_population e n r w")
  case (Inl err)
  then show ?thesis using assms by (simp add: simulate_Inl)
next
  case (Inr pw)
  obtain pop w1 where pw: "pw = (pop, w1)" by (cases pw)
  have b: "build_population e n r w = Inr (pop, w1)" using Inr pw by simp
  from build_population_built [OF b] have c: "constructed w1 = constructed w" by auto
  have "constructed w' = constructed w @ [construct cls pop]"
    using assms unfolding simulate_unfold [OF b]
    by (auto simp: time_time_def run_rounds_world c split: if_splits)
  with b show ?thesis by blast
qed

lemma vote_slept:
  "slept (snd (vote e node tx w))
     = slept w + (if is_byzantine node then 5 / 100 + (2 / 10 - 5 / 100) * random_draw e (draws w)
                  else 1 / 100 + (5 / 100 - 1 / 100) * random_draw e (draws w))"
  by (simp add: vote_def simulate_latency_def random_uniform_def random_random_def
        random_choice2_def randbelow_def time_sleep_def Let_def case_prod_unfold)

text \<open>When every float draw has the same value \<open>u\<close>, the time slept is a sum per class.\<close>

lemma collect_votes_slept:
  assumes "\<And>k. random_draw e k = u"
  shows "slept (snd (collect_votes e ns tx w))
           = slept w + real (length (filter is_byzantine ns)) * (5 / 100 + (2 / 10 - 5 / 100) * u)
               + real (length (filter (\<lambda>x. \<not> is_byzantine x) ns))
                   * (1 / 100 + (5 / 100 - 1 / 100) * u)"
proof (induction ns arbitrary: w)
  case Nil
  then show ?case by simp
next
  case (Cons node rest)
  show ?case
    unfolding collect_votes_Cons Cons.IH vote_slept assms
    by (cases "is_byzantine node") (simp_all add: field_simps)
qed

text \<open>The world after \<open>k\<close> rounds of the Baseline protocol.\<close>

lemma run_rounds_pbft_world:
  "draws (snd (run_rounds e (PBFT p) k c w))
     = draws w + k * (length (pbft_nodes p) + length (filter is_byzantine (pbft_nodes p)))"
  "polled (snd (run_rounds e (PBFT p) k c w)) = polled w + k * length (pbft_nodes p)"
  by (induction k arbitrary: c w)
     (simp_all add: run_rounds_Suc pbft_consensus_sel collect_votes_world algebra_simps
        del: run_rounds.simps(2))

lemma run_rounds_pbft_slept:
  assumes "\<And>k. random_draw e k = u"
  shows "slept (snd (run_rounds e (PBFT p) k c w))
           = slept w + real k *
               (real (length (filter is_byzantine (pbft_nodes p)))
                  * (5 / 100 + (2 / 10 - 5 / 100) * u)
                + real (length (filter (\<lambda>x. \<not> is_byzantine x) (pbft_nodes p)))
                  * (1 / 100 + (5 / 100 - 1 / 100) * u))"
proof (induction k arbitrary: c w)
  case 0
  then show ?case by simp
next
  case (Suc k)
  show ?case
    unfolding run_rounds_Suc Suc.IH consensus.simps pbft_consensus_sel
      collect_votes_slept [OF assms]
    by (simp add: field_simps)
qed


subsection \<open>The literals of the script\<close>

text \<open>
  The ratios the script sweeps are doubles, each within half a unit in the last place
  of its decimal literal.
\<close>

lemma byzantine_ratios_doubles:
  "list_all is_double byzantine_ratios"
  "\<bar>float_value 3602879701896397 (- 55) - 1 / 10\<bar> \<le> 2 powi (- 57)"
  "\<bar>float_value 3602879701896397 (- 54) - 2 / 10\<bar> \<le> 2 powi (- 56)"
  "\<bar>float_value 5404319552844595 (- 54) - 3 / 10\<bar> \<le> 2 powi (- 55)"
  "\<bar>float_value 3602879701896397 (- 53) - 4 / 10\<bar> \<le> 2 powi (- 55)"
  by (simp_all add: byzantine_ratios_def float_value_def)

lemma byzantine_ratios_built:
  "\<forall>ratio\<in>set byzantine_ratios. \<exists>k. n_byzantine n_nodes ratio = Inr k"
proof -
  have "n_byzantine n_nodes (Finite 0 0) = Inr 0" by code_simp
  moreover have "n_byzantine n_nodes (Finite 3602879701896397 (- 55)) = Inr 2" by code_simp
  moreover have "n_byzantine n_nodes (Finite 3602879701896397 (- 54)) = Inr 4" by code_simp
  moreover have "n_byzantine n_nodes (Finite 5404319552844595 (- 54)) = Inr 6" by code_simp
  moreover have "n_byzantine n_nodes (Finite 3602879701896397 (- 53)) = Inr 8" by code_simp
  ultimately show ?thesis by (simp add: byzantine_ratios_def)
qed

subsection \<open>The sweep\<close>

lemma sweep_Cons_Inr:
  assumes "sweep e (ratio # ratios) s w = Inr (s', w')"
  obtains res1 w1 res2 w2 s1 where
    "simulate e PBFTProtocol_class n_nodes ratio n_transactions w = Inr (res1, w1)"
    "simulate e CEPBFTProtocol_class n_nodes ratio n_transactions w1 = Inr (res2, w2)"
    "sweep e ratios s1 w2 = Inr (s', w')"
  using assms by (auto split: sum.splits prod.splits)

text \<open>
  With a clock that never returns the same value twice in a row, the sweep runs to its
  end over every list of ratios for which line 63 returns.
\<close>

lemma simulate_returns:
  assumes "\<And>k. time_draw e (Suc k) \<noteq> time_draw e k"
    and "n_byzantine n r = Inr k"
  shows "\<exists>tp c w'. simulate e cls n r t w = Inr ((tp, c, t), w')"
proof -
  obtain pop w1 where b: "build_population e n r w = Inr (pop, w1)"
    using build_population_Inr [OF assms(2), of e w]
    by (cases "random_shuffle e
                 (replicate (nat k) (Node True) @ replicate (nat (n - k)) (Node False)) w") simp
  show ?thesis
    unfolding simulate_unfold [OF b] using assms(1) [of "reads w"] by simp
qed

lemma sweep_returns:
  assumes "\<And>k. time_draw e (Suc k) \<noteq> time_draw e k"
    and "\<forall>ratio\<in>set ratios. \<exists>k. n_byzantine n_nodes ratio = Inr k"
  shows "\<exists>s' w'. sweep e ratios s w = Inr (s', w')"
  using assms(2)
proof (induction ratios arbitrary: s w)
  case Nil
  then show ?case by simp
next
  case (Cons ratio ratios)
  from Cons.prems obtain k where k: "n_byzantine n_nodes ratio = Inr k" by auto
  obtain tp1 c1 w1 where s1:
    "simulate e PBFTProtocol_class n_nodes ratio n_transactions w
       = Inr ((tp1, c1, n_transactions), w1)"
    using simulate_returns [OF assms(1) k] by blast
  obtain tp2 c2 w2 where s2:
    "simulate e CEPBFTProtocol_class n_nodes ratio n_transactions w1
       = Inr ((tp2, c2, n_transactions), w2)"
    using simulate_returns [OF assms(1) k] by blast
  have t: "n_transactions \<noteq> 0" by (simp add: n_transactions_def)
  have rest: "\<forall>ratio\<in>set ratios. \<exists>k. n_byzantine n_nodes ratio = Inr k"
    using Cons.prems by simp
  show ?case
    using Cons.IH [OF rest] by (simp add: s1 s2 py_truediv_def t)
qed

subsection \<open>Claims\<close>

text \<open>
  C10. A Baseline protocol over the empty population approves: no vote is collected,
  \<open>0 >= (2/3) * 0\<close> holds, and \<open>consensus\<close> returns \<open>True\<close>. The Trust-Filtered
  protocol over the same empty population returns \<open>False\<close>. Neither changes the world.
\<close>

theorem pbft_empty_population_approves:
  "pbft_consensus e (PBFTProtocol_init []) tx w = (True, w)
   \<and> cepbft_consensus e (CEPBFTProtocol_init []) tx w = (False, w)"
  by (simp add: pbft_consensus_def PBFTProtocol_init_def cepbft_consensus_def
        CEPBFTProtocol_init_def classify_nodes_def)

text \<open>
  C5. When the trusted subset of a Trust-Filtered instance is empty, \<open>consensus\<close>
  returns \<open>False\<close> and leaves the world as it was: no call of \<open>Node.vote\<close> is counted
  in \<open>polled\<close>, nothing is drawn and nothing is slept. The same holds for every one
  of the \<open>k\<close> calls the round loop makes, so the loop returns the count it started with.
\<close>

theorem cepbft_empty_trusted_no_votes:
  assumes "trusted_nodes p = []"
  shows "cepbft_consensus e p tx w = (False, w)
         \<and> polled (snd (cepbft_consensus e p tx w)) = polled w
         \<and> run_rounds e (CEPBFT p) k c w = (c, w)"
proof -
  have one: "\<And>w. consensus e (CEPBFT p) () w = (False, w)"
    using assms by (simp add: cepbft_consensus_def)
  have "cepbft_consensus e p tx w = (False, w)"
    using assms by (simp add: cepbft_consensus_def)
  moreover have "run_rounds e (CEPBFT p) k c w = (c, w)"
    using one by (rule run_rounds_idle)
  ultimately show ?thesis by simp
qed

theorem cepbft_empty_trusted_no_votes_witness:
  "trusted_nodes (CEPBFTProtocol_init [Node True, Node True]) = []
   \<and> cepbft_consensus env_ticking (CEPBFTProtocol_init [Node True, Node True]) () world0
       = (False, world0)
   \<and> run_rounds env_ticking (CEPBFT (CEPBFTProtocol_init [Node True, Node True])) 100 0 world0
       = (0, world0)"
proof -
  have h: "trusted_nodes (CEPBFTProtocol_init [Node True, Node True]) = []"
    by (simp add: CEPBFTProtocol_init_def classify_nodes_def)
  show ?thesis
    using h cepbft_empty_trusted_no_votes [OF h, of env_ticking "()" world0 100 0] by simp
qed

text \<open>
  C9. When the trusted subset of a Trust-Filtered instance built by the constructor is
  not empty, every trusted node is honest, every collected vote is \<open>True\<close>, the number
  of approvals equals the size of the trusted subset, and \<open>consensus\<close> returns \<open>True\<close>,
  whatever the random draws are.
\<close>

theorem cepbft_nonempty_trusted_approves:
  assumes "trusted_nodes (CEPBFTProtocol_init nodes) \<noteq> []"
  shows "fst (cepbft_consensus e (CEPBFTProtocol_init nodes) tx w) = True
         \<and> py_sum (fst (collect_votes e (trusted_nodes (CEPBFTProtocol_init nodes)) tx w))
             = int (length (trusted_nodes (CEPBFTProtocol_init nodes)))"
proof -
  let ?t = "trusted_nodes (CEPBFTProtocol_init nodes)"
  have "\<forall>x\<in>set ?t. \<not> is_byzantine x"
    by (simp add: CEPBFTProtocol_init_def classify_nodes_def)
  then have s: "py_sum (fst (collect_votes e ?t tx w)) = int (length ?t)"
    by (rule collect_votes_all_honest)
  have "(2 / 3) * real (length ?t) \<le> real (length ?t)" by simp
  then show ?thesis using assms s by (simp add: cepbft_consensus_sel)
qed

theorem cepbft_nonempty_trusted_approves_witness:
  "trusted_nodes (CEPBFTProtocol_init [Node True, Node False, Node True]) \<noteq> []
   \<and> fst (cepbft_consensus env_ticking (CEPBFTProtocol_init [Node True, Node False, Node True])
            () world0) = True"
proof -
  have h: "trusted_nodes (CEPBFTProtocol_init [Node True, Node False, Node True]) \<noteq> []"
    by (simp add: CEPBFTProtocol_init_def classify_nodes_def)
  show ?thesis
    using h cepbft_nonempty_trusted_approves [OF h, of env_ticking "()" world0] by simp
qed

text \<open>
  C7. The trusted subset computed by the constructor holds exactly the honest nodes of
  the population, each as often as the population holds it: no Byzantine node is in it
  and no honest node is left out. Its size is the number of honest nodes and is the
  same for every order of the population. For a population that \<open>simulate\<close> has built
  (under any shuffle) it is the number of honest nodes built,
  \<open>n_nodes - n_byzantine\<close>, none when that is negative.
\<close>

theorem trusted_subset_exactly_honest:
  "mset (trusted_nodes (CEPBFTProtocol_init nodes))
     = filter_mset (\<lambda>x. \<not> is_byzantine x) (mset nodes)
   \<and> (\<forall>x\<in>set nodes.
         (x \<in> set (trusted_nodes (CEPBFTProtocol_init nodes))) = (\<not> is_byzantine x))
   \<and> set (trusted_nodes (CEPBFTProtocol_init nodes)) \<subseteq> set nodes
   \<and> (mset nodes' = mset nodes \<longrightarrow>
        length (trusted_nodes (CEPBFTProtocol_init nodes'))
          = length (filter (\<lambda>x. \<not> is_byzantine x) nodes))
   \<and> (build_population e n r w = Inr (pop, w1) \<longrightarrow>
        length (trusted_nodes (CEPBFTProtocol_init pop))
          = length (filter (\<lambda>x. \<not> is_byzantine x) pop)
        \<and> (\<exists>k. n_byzantine n r = Inr k
               \<and> length (trusted_nodes (CEPBFTProtocol_init pop)) = nat (n - k)))"
proof -
  have a: "mset (trusted_nodes (CEPBFTProtocol_init nodes))
             = filter_mset (\<lambda>x. \<not> is_byzantine x) (mset nodes)"
    by (simp add: CEPBFTProtocol_init_def classify_nodes_def)
  have b: "\<forall>x\<in>set nodes.
             (x \<in> set (trusted_nodes (CEPBFTProtocol_init nodes))) = (\<not> is_byzantine x)"
    by (simp add: CEPBFTProtocol_init_def classify_nodes_def)
  have c: "set (trusted_nodes (CEPBFTProtocol_init nodes)) \<subseteq> set nodes"
    by (auto simp: CEPBFTProtocol_init_def classify_nodes_def)
  have d: "mset nodes' = mset nodes \<longrightarrow>
             length (trusted_nodes (CEPBFTProtocol_init nodes'))
               = length (filter (\<lambda>x. \<not> is_byzantine x) nodes)"
    using length_filter_mset_cong [of nodes' nodes "\<lambda>x. \<not> is_byzantine x"]
    by (simp add: CEPBFTProtocol_init_def classify_nodes_def)
  have f: "build_population e n r w = Inr (pop, w1) \<longrightarrow>
             length (trusted_nodes (CEPBFTProtocol_init pop))
               = length (filter (\<lambda>x. \<not> is_byzantine x) pop)
             \<and> (\<exists>k. n_byzantine n r = Inr k
                    \<and> length (trusted_nodes (CEPBFTProtocol_init pop)) = nat (n - k))"
  proof
    assume "build_population e n r w = Inr (pop, w1)"
    from build_population_built [OF this] obtain k where k: "n_byzantine n r = Inr k"
      "mset pop = replicate_mset (nat k) (Node True) + replicate_mset (nat (n - k)) (Node False)"
      by auto
    have "length (filter (\<lambda>x. \<not> is_byzantine x) pop) = nat (n - k)"
      by (rule counts_of_mset(2) [OF k(2)])
    with k(1) show "length (trusted_nodes (CEPBFTProtocol_init pop))
                      = length (filter (\<lambda>x. \<not> is_byzantine x) pop)
                    \<and> (\<exists>k. n_byzantine n r = Inr k
                           \<and> length (trusted_nodes (CEPBFTProtocol_init pop)) = nat (n - k))"
      by (simp add: CEPBFTProtocol_init_def classify_nodes_def)
  qed
  from a b c d f show ?thesis by blast
qed

theorem trusted_subset_exactly_honest_witness:
  "mset [Node False, Node True, Node False] = mset [Node True, Node False, Node False]
   \<and> build_population env_ticking 20 (Finite 3602879701896397 (- 54)) world0
       = Inr (Node False # Node True # Node True # replicate 15 (Node False)
                @ [Node True, Node True],
              \<lparr>draws = 19, reads = 0, slept = 0, polled = 0, constructed = []\<rparr>)
   \<and> Node False \<in> set (trusted_nodes (CEPBFTProtocol_init [Node True, Node False, Node False]))
   \<and> Node True \<notin> set (trusted_nodes (CEPBFTProtocol_init [Node True, Node False, Node False]))
   \<and> length (trusted_nodes (CEPBFTProtocol_init [Node False, Node True, Node False])) = 2
   \<and> length (trusted_nodes (CEPBFTProtocol_init
        (Node False # Node True # Node True # replicate 15 (Node False)
           @ [Node True, Node True]))) = 16"
proof -
  have b: "build_population env_ticking 20 (Finite 3602879701896397 (- 54)) world0
             = Inr (Node False # Node True # Node True # replicate 15 (Node False)
                      @ [Node True, Node True],
                    \<lparr>draws = 19, reads = 0, slept = 0, polled = 0, constructed = []\<rparr>)"
    by code_simp
  have k: "n_byzantine 20 (Finite 3602879701896397 (- 54)) = Inr 4" by code_simp
  show ?thesis
    using trusted_subset_exactly_honest
            [of "[Node True, Node False, Node False]" "[Node False, Node True, Node False]"
                env_ticking 20 "Finite 3602879701896397 (- 54)" world0
                "Node False # Node True # Node True # replicate 15 (Node False)
                   @ [Node True, Node True]"
                "\<lparr>draws = 19, reads = 0, slept = 0, polled = 0, constructed = []\<rparr>"]
          b k
    by simp
qed




text \<open>
  C4. \<open>PBFTProtocol.consensus\<close> returns \<open>True\<close> exactly when the number of \<open>True\<close>
  votes it collected is at least two thirds of the number of nodes, compared as real
  numbers; on the integers this is \<open>2 * size <= 3 * approvals\<close>. With exactly three
  nodes the result is \<open>True\<close> exactly when at least two votes approve: two approvals
  give \<open>True\<close>, one approval gives \<open>False\<close>.
\<close>

theorem pbft_two_thirds_threshold:
  "fst (pbft_consensus e p tx w)
     = ((2 / 3) * real (length (pbft_nodes p))
          \<le> real (length (filter (\<lambda>v. v) (fst (collect_votes e (pbft_nodes p) tx w)))))
   \<and> fst (pbft_consensus e p tx w)
     = (2 * length (pbft_nodes p)
          \<le> 3 * length (filter (\<lambda>v. v) (fst (collect_votes e (pbft_nodes p) tx w))))
   \<and> (length (pbft_nodes p) = 3 \<longrightarrow>
        fst (pbft_consensus e p tx w)
          = (2 \<le> length (filter (\<lambda>v. v) (fst (collect_votes e (pbft_nodes p) tx w)))))"
proof -
  let ?n = "length (pbft_nodes p)"
  let ?k = "length (filter (\<lambda>v. v) (fst (collect_votes e (pbft_nodes p) tx w)))"
  have a: "fst (pbft_consensus e p tx w) = ((2 / 3) * real ?n \<le> real ?k)"
    by (simp add: pbft_consensus_sel py_sum_count)
  have "((2 / 3) * real ?n \<le> real ?k) = (real (2 * ?n) \<le> real (3 * ?k))"
    by (simp add: field_simps)
  also have "\<dots> = (2 * ?n \<le> 3 * ?k)" by (simp only: of_nat_le_iff)
  finally have b: "((2 / 3) * real ?n \<le> real ?k) = (2 * ?n \<le> 3 * ?k)" .
  have c: "?n = 3 \<longrightarrow> (2 * ?n \<le> 3 * ?k) = (2 \<le> ?k)" by auto
  from a b c show ?thesis by simp
qed

theorem pbft_two_thirds_threshold_witness:
  "length (pbft_nodes (PBFTProtocol_init [Node False, Node True, Node False])) = 3
   \<and> fst (collect_votes env_ticking [Node False, Node True, Node False] () world0)
       = [True, False, True]
   \<and> fst (pbft_consensus env_ticking (PBFTProtocol_init [Node False, Node True, Node False])
            () world0) = True
   \<and> length (pbft_nodes (PBFTProtocol_init [Node True, Node True, Node False])) = 3
   \<and> fst (collect_votes env_ticking [Node True, Node True, Node False] () world0)
       = [False, False, True]
   \<and> fst (pbft_consensus env_ticking (PBFTProtocol_init [Node True, Node True, Node False])
            () world0) = False"
proof -
  have v2: "fst (collect_votes env_ticking [Node False, Node True, Node False] () world0)
              = [True, False, True]"
    by (simp add: vote_def simulate_latency_def random_uniform_def random_random_def
          random_choice2_def randbelow_def time_sleep_def env_ticking_def world0_def)
  have v1: "fst (collect_votes env_ticking [Node True, Node True, Node False] () world0)
              = [False, False, True]"
    by (simp add: vote_def simulate_latency_def random_uniform_def random_random_def
          random_choice2_def randbelow_def time_sleep_def env_ticking_def world0_def)
  show ?thesis
    using pbft_two_thirds_threshold
            [of env_ticking "PBFTProtocol_init [Node False, Node True, Node False]" "()" world0]
          pbft_two_thirds_threshold
            [of env_ticking "PBFTProtocol_init [Node True, Node True, Node False]" "()" world0]
    by (simp add: PBFTProtocol_init_def v1 v2 del: collect_votes.simps)
qed

text \<open>
  C8. With 20 nodes and ratio 0.2 (the double \<open>0x1.999999999999ap-3\<close>) line 63 returns
  4 and the population is built, with exactly 4 Byzantine and 16 honest nodes, under
  any shuffle. Over that population \<open>PBFTProtocol.consensus\<close> returns \<open>True\<close> for every
  environment and world, that is, whatever the Byzantine nodes vote, and the round loop
  counts every one of its \<open>k\<close> rounds as correct.
\<close>

theorem baseline_20_nodes_ratio_02_always_approves:
  "\<exists>pop w1.
     build_population e 20 (Finite 3602879701896397 (- 54)) w = Inr (pop, w1)
   \<and> length (filter is_byzantine pop) = 4
   \<and> length (filter (\<lambda>x. \<not> is_byzantine x) pop) = 16
   \<and> (\<forall>e' tx w'. fst (pbft_consensus e' (PBFTProtocol_init pop) tx w') = True)
   \<and> (\<forall>e' k w'. fst (run_rounds e' (construct PBFTProtocol_class pop) k 0 w') = int k)"
proof -
  have k: "n_byzantine 20 (Finite 3602879701896397 (- 54)) = Inr 4" by code_simp
  obtain pop w1 where
    bp: "build_population e 20 (Finite 3602879701896397 (- 54)) w = Inr (pop, w1)"
    using build_population_Inr [OF k, of e w]
    by (cases "random_shuffle e
                 (replicate (nat 4) (Node True) @ replicate (nat (20 - 4)) (Node False)) w") simp
  from build_population_built [OF bp] k
  have m: "mset pop = replicate_mset (nat 4) (Node True)
                      + replicate_mset (nat (20 - 4)) (Node False)"
    by auto
  have b: "length (filter is_byzantine pop) = 4"
    using counts_of_mset(1) [OF m] by simp
  have h: "length (filter (\<lambda>x. \<not> is_byzantine x) pop) = 16"
    using counts_of_mset(2) [OF m] by simp
  have l: "length pop = 20"
    using counts_of_mset(3) [OF m] by simp
  have ok: "fst (pbft_consensus e' (PBFTProtocol_init pop) () w'')" for e' w''
  proof -
    have "16 \<le> py_sum (fst (collect_votes e' pop () w''))"
      using collect_votes_honest [of pop e' "()" w''] h by simp
    then have "(2 / 3) * real (length pop)
                 \<le> real_of_int (py_sum (fst (collect_votes e' pop () w'')))"
      using l by simp
    then show ?thesis by (simp add: pbft_consensus_sel PBFTProtocol_init_def)
  qed
  have one: "fst (pbft_consensus e' (PBFTProtocol_init pop) tx w')" for e' tx w'
    using ok [of e' w'] by simp
  have all: "fst (run_rounds e' (PBFT (PBFTProtocol_init pop)) k 0 w') = int k" for e' k w'
    using run_rounds_always [of e' "PBFT (PBFTProtocol_init pop)" k 0 w'] ok by simp
  from bp b h one all show ?thesis by auto
qed

text \<open>
  C2 (as the code has it). When line 63 raises, \<open>simulate\<close> raises that exception.
  Otherwise \<open>simulate\<close> has no guard on the elapsed time, which is the difference of its
  two clock readings. When that difference is zero, the division raises
  \<open>ZeroDivisionError\<close>; when it is not zero, negative included, \<open>simulate\<close> returns
  \<open>correct_transactions / elapsed_time\<close> as the throughput, where
  \<open>correct_transactions\<close> is the count of the round loop, between 0 and the number of
  rounds.
\<close>

theorem simulate_divides_by_elapsed_time:
  "(build_population e n r w = Inl err \<longrightarrow> simulate e cls n r t w = Inl err)
   \<and> (build_population e n r w = Inr (pop, w1) \<longrightarrow>
        (time_draw e (Suc (reads w)) - time_draw e (reads w) = 0 \<longrightarrow>
           simulate e cls n r t w = Inl ZeroDivisionError)
      \<and> (time_draw e (Suc (reads w)) - time_draw e (reads w) \<noteq> 0 \<longrightarrow>
           (\<exists>c w'. simulate e cls n r t w
                     = Inr ((real_of_int c / (time_draw e (Suc (reads w)) - time_draw e (reads w)),
                             c, t), w')
                  \<and> c = fst (run_rounds e (construct cls pop) (nat t) 0
                              (snd (time_time e
                                 (w1\<lparr>constructed := constructed w1 @ [construct cls pop]\<rparr>))))
                  \<and> 0 \<le> c \<and> c \<le> int (nat t))))"
proof -
  let ?c = "fst (run_rounds e (construct cls pop) (nat t) 0
                   (snd (time_time e (w1\<lparr>constructed := constructed w1 @ [construct cls pop]\<rparr>))))"
  have bounds: "0 \<le> ?c \<and> ?c \<le> 0 + int (nat t)" by (rule run_rounds_bounds)
  have a: "build_population e n r w = Inl err \<longrightarrow> simulate e cls n r t w = Inl err"
    by (simp add: simulate_Inl)
  have b: "build_population e n r w = Inr (pop, w1) \<longrightarrow>
        (time_draw e (Suc (reads w)) - time_draw e (reads w) = 0 \<longrightarrow>
           simulate e cls n r t w = Inl ZeroDivisionError)
      \<and> (time_draw e (Suc (reads w)) - time_draw e (reads w) \<noteq> 0 \<longrightarrow>
           (\<exists>c w'. simulate e cls n r t w
                     = Inr ((real_of_int c / (time_draw e (Suc (reads w)) - time_draw e (reads w)),
                             c, t), w')
                  \<and> c = ?c \<and> 0 \<le> c \<and> c \<le> int (nat t)))"
  proof
    assume bp: "build_population e n r w = Inr (pop, w1)"
    show "(time_draw e (Suc (reads w)) - time_draw e (reads w) = 0 \<longrightarrow>
           simulate e cls n r t w = Inl ZeroDivisionError)
      \<and> (time_draw e (Suc (reads w)) - time_draw e (reads w) \<noteq> 0 \<longrightarrow>
           (\<exists>c w'. simulate e cls n r t w
                     = Inr ((real_of_int c / (time_draw e (Suc (reads w)) - time_draw e (reads w)),
                             c, t), w')
                  \<and> c = ?c \<and> 0 \<le> c \<and> c \<le> int (nat t)))"
      using bounds by (simp add: simulate_unfold [OF bp])
  qed
  from a b show ?thesis by blast
qed

theorem simulate_divides_by_elapsed_time_witness:
  "build_population env_ticking 10 (Finite 5010420900022432 971) world0 = Inl OverflowError
   \<and> simulate env_ticking PBFTProtocol_class 10 (Finite 5010420900022432 971) 1 world0
       = Inl OverflowError
   \<and> build_population env_frozen 2 (Finite 1 (- 1)) world0
       = Inr ([Node False, Node True],
              \<lparr>draws = 1, reads = 0, slept = 0, polled = 0, constructed = []\<rparr>)
   \<and> time_draw env_frozen (Suc (reads world0)) - time_draw env_frozen (reads world0) = 0
   \<and> simulate env_frozen PBFTProtocol_class 2 (Finite 1 (- 1)) 0 world0 = Inl ZeroDivisionError
   \<and> build_population env_ticking 2 (Finite 1 (- 1)) world0
       = Inr ([Node False, Node True],
              \<lparr>draws = 1, reads = 0, slept = 0, polled = 0, constructed = []\<rparr>)
   \<and> time_draw env_ticking (Suc (reads world0)) - time_draw env_ticking (reads world0) \<noteq> 0
   \<and> (\<exists>c w'. simulate env_ticking CEPBFTProtocol_class 2 (Finite 1 (- 1)) 1 world0
                = Inr ((real_of_int c / 100, c, 1), w'))"
proof -
  have o: "build_population env_ticking 10 (Finite 5010420900022432 971) world0
             = Inl OverflowError"
    by code_simp
  have bf: "build_population env_frozen 2 (Finite 1 (- 1)) world0
              = Inr ([Node False, Node True],
                     \<lparr>draws = 1, reads = 0, slept = 0, polled = 0, constructed = []\<rparr>)"
    by code_simp
  have bt: "build_population env_ticking 2 (Finite 1 (- 1)) world0
              = Inr ([Node False, Node True],
                     \<lparr>draws = 1, reads = 0, slept = 0, polled = 0, constructed = []\<rparr>)"
    by code_simp
  have z: "time_draw env_frozen (Suc (reads world0)) - time_draw env_frozen (reads world0) = 0"
    by (simp add: env_frozen_def env_ticking_def world0_def)
  have p: "time_draw env_ticking (Suc (reads world0)) - time_draw env_ticking (reads world0) = 100"
    by (simp add: env_ticking_def world0_def)
  have a: "simulate env_ticking PBFTProtocol_class 10 (Finite 5010420900022432 971) 1 world0
             = Inl OverflowError"
    using simulate_divides_by_elapsed_time
            [of env_ticking 10 "Finite 5010420900022432 971" world0 OverflowError
                PBFTProtocol_class 1] o
    by simp
  have b: "simulate env_frozen PBFTProtocol_class 2 (Finite 1 (- 1)) 0 world0
             = Inl ZeroDivisionError"
    using simulate_divides_by_elapsed_time
            [of env_frozen 2 "Finite 1 (- 1)" world0 _ PBFTProtocol_class 0
                "[Node False, Node True]"
                "\<lparr>draws = 1, reads = 0, slept = 0, polled = 0, constructed = []\<rparr>"] bf z
    by simp
  have c: "\<exists>c w'. simulate env_ticking CEPBFTProtocol_class 2 (Finite 1 (- 1)) 1 world0
                    = Inr ((real_of_int c / 100, c, 1), w')"
  proof -
    from simulate_divides_by_elapsed_time
            [of env_ticking 2 "Finite 1 (- 1)" world0 _ CEPBFTProtocol_class 1
                "[Node False, Node True]"
                "\<lparr>draws = 1, reads = 0, slept = 0, polled = 0, constructed = []\<rparr>"] bt p
    obtain c w' where "simulate env_ticking CEPBFTProtocol_class 2 (Finite 1 (- 1)) 1 world0
                         = Inr ((real_of_int c / 100, c, 1), w')"
      by auto
    then show ?thesis by blast
  qed
  from o bf bt z p a b c show ?thesis by simp
qed

text \<open>
  C2 as the specification states it fails. With no round to run and a clock that
  returns the same value twice, the elapsed time is zero and \<open>simulate\<close> raises the
  division fault itself. With a clock that was set back by one second between the two
  readings, the elapsed time is \<open>-1\<close> and \<open>simulate\<close> returns the throughput \<open>-1\<close>: it
  divided by a denominator that is not positive.
\<close>

theorem simulate_zero_elapsed_raises:
  "simulate env_frozen PBFTProtocol_class 2 (Finite 1 (- 1)) 0 world0 = Inl ZeroDivisionError
   \<and> simulate env_backwards PBFTProtocol_class 0 (Finite 0 0) 1 world0
       = Inr ((- 1, 1, 1),
              \<lparr>draws = 0, reads = 2, slept = 0, polled = 0,
                 constructed = [construct PBFTProtocol_class []]\<rparr>)"
proof -
  have bf: "build_population env_frozen 2 (Finite 1 (- 1)) world0
              = Inr ([Node False, Node True],
                     \<lparr>draws = 1, reads = 0, slept = 0, polled = 0, constructed = []\<rparr>)"
    by code_simp
  have bb: "build_population env_backwards 0 (Finite 0 0) world0
              = Inr ([], \<lparr>draws = 0, reads = 0, slept = 0, polled = 0, constructed = []\<rparr>)"
    by code_simp
  have a: "simulate env_frozen PBFTProtocol_class 2 (Finite 1 (- 1)) 0 world0
             = Inl ZeroDivisionError"
    unfolding simulate_unfold [OF bf]
    by (simp add: env_frozen_def env_ticking_def world0_def)
  have b: "simulate env_backwards PBFTProtocol_class 0 (Finite 0 0) 1 world0
             = Inr ((- 1, 1, 1),
                    \<lparr>draws = 0, reads = 2, slept = 0, polled = 0,
                       constructed = [construct PBFTProtocol_class []]\<rparr>)"
    unfolding simulate_unfold [OF bb]
    by (simp add: time_time_def env_backwards_def env_ticking_def world0_def
          PBFTProtocol_init_def pbft_consensus_def)
  from a b show ?thesis by simp
qed




text \<open>
  C1 (as the code has it). Each call of \<open>simulate\<close> builds and shuffles its own
  population and constructs its protocol instance over it. A sweep that runs to its end
  has constructed, for each ratio in turn, a \<open>PBFTProtocol\<close> instance over a population
  \<open>pop1\<close> and then a \<open>CEPBFTProtocol\<close> instance over a population \<open>pop2\<close>, and nothing
  else. Both populations are built from the script's node count and that ratio: they
  hold the same nodes with the same multiplicities, the \<open>n_byzantine\<close> Byzantine and
  \<open>n_nodes - n_byzantine\<close> honest nodes of line 63. Their order is not claimed to
  agree.
\<close>

theorem sweep_populations_same_composition:
  assumes "sweep e ratios s w = Inr (s', w')"
  shows "\<exists>pops.
           constructed w'
             = constructed w
               @ concat (map (\<lambda>(pop1, pop2). [construct PBFTProtocol_class pop1,
                                                construct CEPBFTProtocol_class pop2]) pops)
         \<and> list_all2
             (\<lambda>ratio (pop1, pop2).
                \<exists>k. n_byzantine n_nodes ratio = Inr k
                  \<and> mset pop1 = replicate_mset (nat k) (Node True)
                                 + replicate_mset (nat (n_nodes - k)) (Node False)
                  \<and> mset pop2 = mset pop1)
             ratios pops"
  using assms
proof (induction ratios arbitrary: s w)
  case Nil
  then have "w' = w" by simp
  then show ?case by simp
next
  case (Cons ratio ratios)
  from Cons.prems obtain res1 wa res2 wb s1 where
    c1: "simulate e PBFTProtocol_class n_nodes ratio n_transactions w = Inr (res1, wa)" and
    c2: "simulate e CEPBFTProtocol_class n_nodes ratio n_transactions wa = Inr (res2, wb)" and
    rest: "sweep e ratios s1 wb = Inr (s', w')"
    by (rule sweep_Cons_Inr)
  from simulate_constructed [OF c1] obtain pop1 u1 where
    b1: "build_population e n_nodes ratio w = Inr (pop1, u1)" and
    k1: "constructed wa = constructed w @ [construct PBFTProtocol_class pop1]"
    by blast
  from simulate_constructed [OF c2] obtain pop2 u2 where
    b2: "build_population e n_nodes ratio wa = Inr (pop2, u2)" and
    k2: "constructed wb = constructed wa @ [construct CEPBFTProtocol_class pop2]"
    by blast
  from build_population_built [OF b1] obtain k where
    k: "n_byzantine n_nodes ratio = Inr k" and
    m1: "mset pop1 = replicate_mset (nat k) (Node True)
                     + replicate_mset (nat (n_nodes - k)) (Node False)"
    by blast
  from build_population_built [OF b2] k
  have m2: "mset pop2 = replicate_mset (nat k) (Node True)
                        + replicate_mset (nat (n_nodes - k)) (Node False)"
    by auto
  from Cons.IH [OF rest] obtain pops where
    p1: "constructed w'
           = constructed wb
             @ concat (map (\<lambda>(pop1, pop2). [construct PBFTProtocol_class pop1,
                                              construct CEPBFTProtocol_class pop2]) pops)" and
    p2: "list_all2
           (\<lambda>ratio (pop1, pop2).
              \<exists>k. n_byzantine n_nodes ratio = Inr k
                \<and> mset pop1 = replicate_mset (nat k) (Node True)
                               + replicate_mset (nat (n_nodes - k)) (Node False)
                \<and> mset pop2 = mset pop1)
           ratios pops"
    by blast
  have q1: "constructed w'
              = constructed w
                @ concat (map (\<lambda>(pop1, pop2). [construct PBFTProtocol_class pop1,
                                                 construct CEPBFTProtocol_class pop2])
                            ((pop1, pop2) # pops))"
    by (simp add: p1 k1 k2)
  have q2: "list_all2
              (\<lambda>ratio (pop1, pop2).
                 \<exists>k. n_byzantine n_nodes ratio = Inr k
                   \<and> mset pop1 = replicate_mset (nat k) (Node True)
                                  + replicate_mset (nat (n_nodes - k)) (Node False)
                   \<and> mset pop2 = mset pop1)
              (ratio # ratios) ((pop1, pop2) # pops)"
    using p2 k m1 m2 by simp
  from q1 q2 show ?case by blast
qed

theorem sweep_populations_same_composition_witness:
  "\<exists>s' w' pops.
     script env_ticking world0 = Inr (s', w')
   \<and> constructed w'
       = concat (map (\<lambda>(pop1, pop2). [construct PBFTProtocol_class pop1,
                                        construct CEPBFTProtocol_class pop2]) pops)
   \<and> list_all2
       (\<lambda>ratio (pop1, pop2).
          \<exists>k. n_byzantine n_nodes ratio = Inr k
            \<and> mset pop1 = replicate_mset (nat k) (Node True)
                           + replicate_mset (nat (n_nodes - k)) (Node False)
            \<and> mset pop2 = mset pop1)
       byzantine_ratios pops"
proof -
  have clock: "time_draw env_ticking (Suc k) \<noteq> time_draw env_ticking k" for k
    by (simp add: env_ticking_def)
  from sweep_returns [OF clock byzantine_ratios_built] obtain s' w' where
    run: "sweep env_ticking byzantine_ratios
            \<lparr>pbft_throughputs = [], cepbft_throughputs = [],
             pbft_correct_ratios = [], cepbft_correct_ratios = []\<rparr> world0 = Inr (s', w')"
    by blast
  have "constructed world0 = []" by (simp add: world0_def)
  with sweep_populations_same_composition [OF run] run show ?thesis
    by (auto simp: script_def)
qed

text \<open>
  C1 as the specification states it fails. With the parameters of the script, ratio
  0.1, and the environment \<open>env_ticking\<close>, the call of \<open>simulate\<close> for \<open>PBFTProtocol\<close>
  started in \<open>world0\<close> shuffles its population into 18 honest nodes followed by the 2
  Byzantine ones, runs its 100 rounds (79 seconds slept, 100 seconds elapsed) and leaves
  the world with 2219 draws consumed. The call for \<open>CEPBFTProtocol\<close> starts in that
  world and shuffles its own population into a Byzantine node, 18 honest nodes and a
  Byzantine node: the two protocols do not run over the same population.
\<close>

theorem sweep_populations_differ:
  "simulate env_ticking PBFTProtocol_class n_nodes (Finite 3602879701896397 (- 55))
       n_transactions world0
     = Inr ((1, 100, 100),
            \<lparr>draws = 2219, reads = 2, slept = 79, polled = 2000,
               constructed = [construct PBFTProtocol_class
                                (replicate 18 (Node False) @ [Node True, Node True])]\<rparr>)
   \<and> build_population env_ticking n_nodes (Finite 3602879701896397 (- 55)) world0
       = Inr (replicate 18 (Node False) @ [Node True, Node True],
              \<lparr>draws = 19, reads = 0, slept = 0, polled = 0, constructed = []\<rparr>)
   \<and> build_population env_ticking n_nodes (Finite 3602879701896397 (- 55))
         \<lparr>draws = 2219, reads = 2, slept = 79, polled = 2000,
            constructed = [construct PBFTProtocol_class
                             (replicate 18 (Node False) @ [Node True, Node True])]\<rparr>
       = Inr (Node True # replicate 18 (Node False) @ [Node True],
              \<lparr>draws = 2238, reads = 2, slept = 79, polled = 2000,
                 constructed = [construct PBFTProtocol_class
                                  (replicate 18 (Node False) @ [Node True, Node True])]\<rparr>)
   \<and> replicate 18 (Node False) @ [Node True, Node True]
       \<noteq> Node True # replicate 18 (Node False) @ [Node True]"
proof -
  let ?r = "Finite 3602879701896397 (- 55)"
  let ?pop = "replicate 18 (Node False) @ [Node True, Node True]"
  let ?p = "PBFTProtocol_init ?pop"
  let ?w1 = "\<lparr>draws = 19, reads = 0, slept = 0, polled = 0, constructed = []\<rparr>"
  let ?w2 = "\<lparr>draws = 19, reads = Suc 0, slept = 0, polled = 0, constructed = [PBFT ?p]\<rparr>"
  let ?rr = "run_rounds env_ticking (PBFT ?p) 100 0 ?w2"
  have pop: "build_population env_ticking n_nodes ?r world0 = Inr (?pop, ?w1)"
    by code_simp
  have pop': "build_population env_ticking n_nodes ?r
                \<lparr>draws = 2219, reads = 2, slept = 79, polled = 2000,
                   constructed = [construct PBFTProtocol_class ?pop]\<rparr>
                = Inr (Node True # replicate 18 (Node False) @ [Node True],
                       \<lparr>draws = 2238, reads = 2, slept = 79, polled = 2000,
                          constructed = [construct PBFTProtocol_class ?pop]\<rparr>)"
    by code_simp
  have w2: "snd (time_time env_ticking (?w1\<lparr>constructed := constructed ?w1 @ [PBFT ?p]\<rparr>))
              = ?w2"
    by (simp add: time_time_def)
  have nodes: "pbft_nodes ?p = ?pop"
    by (simp add: PBFTProtocol_init_def)
  have ok: "fst (consensus env_ticking (PBFT ?p) () w)" for w
  proof -
    have "int (length (filter (\<lambda>x. \<not> is_byzantine x) (pbft_nodes ?p)))
            \<le> py_sum (fst (collect_votes env_ticking (pbft_nodes ?p) () w))"
      by (rule collect_votes_honest)
    then have "18 \<le> py_sum (fst (collect_votes env_ticking (pbft_nodes ?p) () w))"
      by (simp add: nodes)
    then show ?thesis by (simp add: pbft_consensus_sel nodes)
  qed
  have c: "fst ?rr = 100"
    using run_rounds_always [of env_ticking "PBFT ?p" 100 0 ?w2] ok by simp
  have u: "random_draw env_ticking k = 1 / 2" for k
    by (simp add: env_ticking_def)
  have d: "draws (snd ?rr) = 2219"
    by (simp add: run_rounds_pbft_world nodes)
  have q: "polled (snd ?rr) = 2000"
    by (simp add: run_rounds_pbft_world nodes)
  have r: "reads (snd ?rr) = Suc 0"
    by (simp add: run_rounds_world)
  have s: "slept (snd ?rr) = 79"
    by (simp add: run_rounds_pbft_slept [OF u] nodes)
  have k: "constructed (snd ?rr) = [PBFT ?p]"
    by (simp add: run_rounds_world)
  have w3: "snd ?rr = \<lparr>draws = 2219, reads = Suc 0, slept = 79, polled = 2000,
                        constructed = [PBFT ?p]\<rparr>"
    using d q r s k by (intro world.equality) simp_all
  have w4: "snd (time_time env_ticking (snd ?rr))
              = \<lparr>draws = 2219, reads = 2, slept = 79, polled = 2000,
                  constructed = [PBFT ?p]\<rparr>"
    unfolding w3 by (simp add: time_time_def)
  have t: "time_draw env_ticking (Suc (reads world0)) - time_draw env_ticking (reads world0) = 100"
    by (simp add: env_ticking_def world0_def)
  have n: "nat n_transactions = 100" "n_transactions = 100"
    by (simp_all add: n_transactions_def)
  have sim: "simulate env_ticking PBFTProtocol_class n_nodes ?r n_transactions world0
               = Inr ((1, 100, 100),
                      \<lparr>draws = 2219, reads = 2, slept = 79, polled = 2000,
                         constructed = [construct PBFTProtocol_class ?pop]\<rparr>)"
    unfolding simulate_unfold [OF pop] w2 t n construct.simps by (simp add: c w4)
  have ne: "?pop \<noteq> Node True # replicate 18 (Node False) @ [Node True]"
    by (simp add: numeral_eq_Suc)
  from sim pop pop' ne show ?thesis by simp
qed

end
